theory Spec2Isabelle
  imports Complex_Main "HOL-Library.AList"
begin

section \<open>Python values and dictionaries\<close>

text \<open>
  The values that travel through the keyword arguments of the \<open>add_*\<close> methods of
  \<open>DynamicProperties.py\<close> and through the attributes of a record instance. Floats are
  only stored and compared, never computed with, so they are modelled by \<open>real\<close>.
\<close>

datatype pyval =
    PNone
  | PBool bool
  | PInt int
  | PFloat real
  | PStr string
  | PSet "string list"
  | PSeq "pyval list"
  | PType string

datatype py_error = TypeError | AttributeError | KeyError | ValueError | RuntimeError

text \<open>
  A Python \<open>dict\<close> keeps its keys in insertion order: \<open>d[k] = v\<close> overwrites in place
  when \<open>k\<close> is there and appends otherwise (\<open>AList.update\<close>), \<open>del d[k]\<close> drops the
  entry (\<open>AList.delete\<close>). \<open>{**kwargs, **args}\<close> starts from the entries of
  \<open>kwargs\<close> and stores the entries of \<open>args\<close> over them, one after the other.
\<close>

definition dict_merge :: "('k \<times> 'v) list \<Rightarrow> ('k \<times> 'v) list \<Rightarrow> ('k \<times> 'v) list" where
  "dict_merge kwargs args = foldl (\<lambda>d (k, v). AList.update k v d) kwargs args"

definition dict_get :: "('k \<times> 'v) list \<Rightarrow> 'k \<Rightarrow> 'v \<Rightarrow> 'v" where
  "dict_get d k dflt = (case map_of d k of None \<Rightarrow> dflt | Some v \<Rightarrow> v)"

definition dict_contains :: "'k \<Rightarrow> ('k \<times> 'v) list \<Rightarrow> bool" where
  "dict_contains k d = (k \<in> set (map fst d))"

section \<open>PropertyCollection\<close>

text \<open>
  The constructors imported from \<open>bpy.props\<close>. A stored property is the constructor
  together with the argument dictionary it was called with.
\<close>

datatype bpy_ctor =
    BoolProperty
  | EnumProperty
  | FloatProperty
  | FloatVectorProperty
  | IntProperty
  | PointerProperty
  | StringProperty

type_synonym kwargs = "(string \<times> pyval) list"
type_synonym bpy_prop = "bpy_ctor \<times> kwargs"
type_synonym meta_entry = "string \<times> string \<times> pyval"

record PropertyCollection =
  props :: "(string \<times> bpy_prop) list"
  meta :: "(string \<times> meta_entry) list"

text \<open>
  The body shared by the keyword-taking \<open>add_*\<close> methods: \<open>args\<close> is the literal
  dictionary the method starts with, \<open>args = {**kwargs, **args}\<close> the merge,
  then \<open>self.props[key] = Ctor(**args)\<close> and
  \<open>self.meta[key] = (kind, name, kwargs.get('description', ''))\<close>.
\<close>

definition add_property ::
  "bpy_ctor \<Rightarrow> string \<Rightarrow> kwargs \<Rightarrow> string \<Rightarrow> string \<Rightarrow> kwargs \<Rightarrow>
   'a PropertyCollection_scheme \<Rightarrow> 'a PropertyCollection_scheme" where
  "add_property ctor kind args key nm kwargs self =
     self\<lparr>props := AList.update key (ctor, dict_merge kwargs args) (props self),
          meta := AList.update key (kind, nm, dict_get kwargs ''description'' (PStr '''')) (meta self)\<rparr>"

definition add_header ::
  "string \<Rightarrow> string \<Rightarrow> 'a PropertyCollection_scheme \<Rightarrow> 'a PropertyCollection_scheme" where
  "add_header key text self =
     self\<lparr>meta := AList.update key (''header'', text, PStr '''') (meta self)\<rparr>"

definition add_float ::
  "string \<Rightarrow> string \<Rightarrow> kwargs \<Rightarrow> 'a PropertyCollection_scheme \<Rightarrow> 'a PropertyCollection_scheme" where
  "add_float key nm kwargs =
     add_property FloatProperty ''float'' [(''name'', PStr nm)] key nm kwargs"

definition add_bool ::
  "string \<Rightarrow> string \<Rightarrow> kwargs \<Rightarrow> 'a PropertyCollection_scheme \<Rightarrow> 'a PropertyCollection_scheme" where
  "add_bool key nm kwargs =
     add_property BoolProperty ''bool'' [(''name'', PStr nm)] key nm kwargs"

definition add_str ::
  "string \<Rightarrow> string \<Rightarrow> kwargs \<Rightarrow> 'a PropertyCollection_scheme \<Rightarrow> 'a PropertyCollection_scheme" where
  "add_str key nm kwargs =
     add_property StringProperty ''str'' [(''name'', PStr nm)] key nm kwargs"

definition add_vec2 ::
  "string \<Rightarrow> string \<Rightarrow> kwargs \<Rightarrow> 'a PropertyCollection_scheme \<Rightarrow> 'a PropertyCollection_scheme" where
  "add_vec2 key nm kwargs =
     add_property FloatVectorProperty ''vec2''
       [(''size'', PInt 2), (''name'', PStr nm)] key nm kwargs"

definition add_vec3 ::
  "string \<Rightarrow> string \<Rightarrow> kwargs \<Rightarrow> 'a PropertyCollection_scheme \<Rightarrow> 'a PropertyCollection_scheme" where
  "add_vec3 key nm kwargs =
     add_property FloatVectorProperty ''vec3''
       [(''size'', PInt 3), (''name'', PStr nm)] key nm kwargs"

definition add_rgb ::
  "string \<Rightarrow> string \<Rightarrow> kwargs \<Rightarrow> 'a PropertyCollection_scheme \<Rightarrow> 'a PropertyCollection_scheme" where
  "add_rgb key nm kwargs =
     add_property FloatVectorProperty ''rgb''
       [(''size'', PInt 3), (''name'', PStr nm), (''subtype'', PStr ''COLOR''),
        (''min'', PFloat 0), (''max'', PFloat 1)] key nm kwargs"

definition add_rgba ::
  "string \<Rightarrow> string \<Rightarrow> kwargs \<Rightarrow> 'a PropertyCollection_scheme \<Rightarrow> 'a PropertyCollection_scheme" where
  "add_rgba key nm kwargs =
     add_property FloatVectorProperty ''rgba''
       [(''size'', PInt 4), (''name'', PStr nm), (''subtype'', PStr ''COLOR''),
        (''min'', PFloat 0), (''max'', PFloat 1)] key nm kwargs"

definition add_enum ::
  "string \<Rightarrow> string \<Rightarrow> kwargs \<Rightarrow> 'a PropertyCollection_scheme \<Rightarrow> 'a PropertyCollection_scheme" where
  "add_enum key nm kwargs =
     add_property EnumProperty ''enum'' [(''name'', PStr nm)] key nm kwargs"

definition add_file ::
  "string \<Rightarrow> string \<Rightarrow> kwargs \<Rightarrow> 'a PropertyCollection_scheme \<Rightarrow> 'a PropertyCollection_scheme" where
  "add_file key nm kwargs =
     add_property StringProperty ''file''
       [(''name'', PStr nm), (''subtype'', PStr ''FILE_PATH'')] key nm kwargs"

definition add_dir ::
  "string \<Rightarrow> string \<Rightarrow> kwargs \<Rightarrow> 'a PropertyCollection_scheme \<Rightarrow> 'a PropertyCollection_scheme" where
  "add_dir key nm kwargs =
     add_property StringProperty ''dir''
       [(''name'', PStr nm), (''subtype'', PStr ''DIR_PATH'')] key nm kwargs"

text \<open>
  \<open>add_image\<close> takes no keyword dictionary: the description is a parameter of its own
  and the constructor is called with exactly three arguments.
\<close>

definition add_image ::
  "string \<Rightarrow> string \<Rightarrow> string \<Rightarrow> 'a PropertyCollection_scheme \<Rightarrow> 'a PropertyCollection_scheme" where
  "add_image key nm description self =
     self\<lparr>props := AList.update key
                     (PointerProperty,
                      [(''name'', PStr nm), (''description'', PStr description),
                       (''type'', PType ''Image'')]) (props self),
          meta := AList.update key (''image'', nm, PStr description) (meta self)\<rparr>"

definition remove ::
  "string \<Rightarrow> 'a PropertyCollection_scheme \<Rightarrow> 'a PropertyCollection_scheme" where
  "remove key self =
     (let s1 = (if dict_contains key (props self)
                then self\<lparr>props := AList.delete key (props self)\<rparr> else self)
      in if dict_contains key (meta s1)
         then s1\<lparr>meta := AList.delete key (meta s1)\<rparr> else s1)"

definition clear ::
  "bool \<Rightarrow> 'a PropertyCollection_scheme \<Rightarrow> 'a PropertyCollection_scheme" where
  "clear enabled self =
     add_bool ''enabled'' ''enabled''
       [(''default'', PBool enabled), (''options'', PSet [''HIDDEN''])]
       (self\<lparr>props := [], meta := []\<rparr>)"

text \<open>\<open>PropertyCollection.__init__\<close>: a new object whose two attributes are set by \<open>clear\<close>.\<close>

definition PropertyCollection_init :: "bool \<Rightarrow> PropertyCollection" where
  "PropertyCollection_init enabled = clear enabled \<lparr>props = [], meta = []\<rparr>"

text \<open>
  The option \<open>k\<close> of the constructor call stored under \<open>key\<close>, \<open>None\<close> when there is no
  such call or the call has no such option.
\<close>

definition passed_arg :: "'a PropertyCollection_scheme \<Rightarrow> string \<Rightarrow> string \<Rightarrow> pyval option" where
  "passed_arg self key k =
     (case map_of (props self) key of None \<Rightarrow> None | Some (ctor, args) \<Rightarrow> map_of args k)"

text \<open>
  The reserved field is there and boolean: the descriptor under \<open>enabled\<close> has kind
  \<open>bool\<close> and the constructor under \<open>enabled\<close> is \<open>BoolProperty\<close>.
\<close>

definition enabled_is_bool :: "'a PropertyCollection_scheme \<Rightarrow> bool" where
  "enabled_is_bool self =
     ((case map_of (meta self) ''enabled'' of
         None \<Rightarrow> False | Some (kind, nm, d) \<Rightarrow> kind = ''bool'')
      \<and> (case map_of (props self) ''enabled'' of
         None \<Rightarrow> False | Some (ctor, args) \<Rightarrow> ctor = BoolProperty))"

text \<open>One call of a method of the collection, to speak about sequences of calls.\<close>

datatype coll_op =
    AddHeader string string
  | AddFloat string string kwargs
  | AddBool string string kwargs
  | AddStr string string kwargs
  | AddVec2 string string kwargs
  | AddVec3 string string kwargs
  | AddRgb string string kwargs
  | AddRgba string string kwargs
  | AddEnum string string kwargs
  | AddFile string string kwargs
  | AddDir string string kwargs
  | AddImage string string string
  | Remove string
  | Clear bool

fun apply_op :: "coll_op \<Rightarrow> 'a PropertyCollection_scheme \<Rightarrow> 'a PropertyCollection_scheme" where
  "apply_op (AddHeader key text) = add_header key text"
| "apply_op (AddFloat key nm kw) = add_float key nm kw"
| "apply_op (AddBool key nm kw) = add_bool key nm kw"
| "apply_op (AddStr key nm kw) = add_str key nm kw"
| "apply_op (AddVec2 key nm kw) = add_vec2 key nm kw"
| "apply_op (AddVec3 key nm kw) = add_vec3 key nm kw"
| "apply_op (AddRgb key nm kw) = add_rgb key nm kw"
| "apply_op (AddRgba key nm kw) = add_rgba key nm kw"
| "apply_op (AddEnum key nm kw) = add_enum key nm kw"
| "apply_op (AddFile key nm kw) = add_file key nm kw"
| "apply_op (AddDir key nm kw) = add_dir key nm kw"
| "apply_op (AddImage key nm d) = add_image key nm d"
| "apply_op (Remove key) = remove key"
| "apply_op (Clear enabled) = clear enabled"

fun apply_ops :: "coll_op list \<Rightarrow> 'a PropertyCollection_scheme \<Rightarrow> 'a PropertyCollection_scheme" where
  "apply_ops [] self = self"
| "apply_ops (x # xs) self = apply_ops xs (apply_op x self)"

text \<open>The key a call is given; \<open>clear\<close> takes none.\<close>

fun op_key :: "coll_op \<Rightarrow> string option" where
  "op_key (AddHeader key text) = Some key"
| "op_key (AddFloat key nm kw) = Some key"
| "op_key (AddBool key nm kw) = Some key"
| "op_key (AddStr key nm kw) = Some key"
| "op_key (AddVec2 key nm kw) = Some key"
| "op_key (AddVec3 key nm kw) = Some key"
| "op_key (AddRgb key nm kw) = Some key"
| "op_key (AddRgba key nm kw) = Some key"
| "op_key (AddEnum key nm kw) = Some key"
| "op_key (AddFile key nm kw) = Some key"
| "op_key (AddDir key nm kw) = Some key"
| "op_key (AddImage key nm d) = Some key"
| "op_key (Remove key) = Some key"
| "op_key (Clear enabled) = None"

fun is_add :: "coll_op \<Rightarrow> bool" where
  "is_add (Remove key) = False"
| "is_add (Clear enabled) = False"
| "is_add x = True"

section \<open>BaseDynamicPropertyGroup.items\<close>

text \<open>
  \<open>items\<close> runs on an instance of a record type: \<open>self.meta\<close> is the descriptor
  dictionary of its type, and \<open>getattr(self, key)\<close> reads the value the instance holds
  under \<open>key\<close>, raising \<open>AttributeError\<close> when there is none. The values are kept by
  the host, so the instance is given as the dictionary of its attribute values.
\<close>

definition getattr_value :: "(string \<times> pyval) list \<Rightarrow> string \<Rightarrow> py_error + pyval" where
  "getattr_value attrs key =
     (case map_of attrs key of None \<Rightarrow> Inl AttributeError | Some v \<Rightarrow> Inr v)"

fun items_loop ::
  "(string \<times> meta_entry) list \<Rightarrow> (string \<times> pyval) list \<Rightarrow>
   (string \<times> string \<times> pyval) list \<Rightarrow> py_error + (string \<times> string \<times> pyval) list" where
  "items_loop [] attrs acc = Inr acc"
| "items_loop ((key, m) # rest) attrs acc =
     (if key \<noteq> ''enabled'' \<and> fst m \<noteq> ''header''
      then (case getattr_value attrs key of
              Inl e \<Rightarrow> Inl e
            | Inr v \<Rightarrow> items_loop rest attrs (AList.update key (fst m, v) acc))
      else items_loop rest attrs acc)"

definition items ::
  "(string \<times> meta_entry) list \<Rightarrow> (string \<times> pyval) list \<Rightarrow>
   py_error + (string \<times> string \<times> pyval) list" where
  "items self_meta attrs = items_loop self_meta attrs []"

text \<open>The fields \<open>items\<close> reports: every key but \<open>enabled\<close>, every kind but \<open>header\<close>.\<close>

definition reported :: "string \<times> meta_entry \<Rightarrow> bool" where
  "reported entry = (fst entry \<noteq> ''enabled'' \<and> fst (snd entry) \<noteq> ''header'')"

section \<open>DynamicProperties\<close>

text \<open>
  A \<open>bpy.types\<close> class is identified by its \<open>__name__\<close>, the only thing the code reads
  from it. \<open>get_key\<close> is \<open>'{}{}'.format(bpy_type.__name__, name)\<close>.
\<close>

definition get_key :: "string \<Rightarrow> string \<Rightarrow> string" where
  "get_key bpy_type_name nm = bpy_type_name @ nm"

text \<open>
  The two classes \<open>register\<close> creates with \<open>type(...)\<close>, with the attributes it sets on
  them. Each call of \<open>type\<close> gives a new class object; \<open>class_id\<close> is its identity.
\<close>

record dyn_record_class =
  rc_class_id :: nat
  rc_class_name :: string
  rc_annotations :: "(string \<times> bpy_prop) list"
  rc_bpy_type :: string
  rc_name :: string
  rc_title :: string
  rc_meta :: "(string \<times> meta_entry) list"

record dyn_panel_class =
  pc_class_id :: nat
  pc_class_name :: string
  pc_bpy_type :: string
  pc_name :: string
  pc_title :: string
  bl_label :: string
  bl_parent_id :: string
  bl_context :: string
  context_attr :: string

datatype bpy_class = PropertyGroupClass dyn_record_class | PanelClass dyn_panel_class

text \<open>
  An attribute that holds a class: \<open>__init__\<close> does not set \<open>property_class\<close> and
  \<open>panel_class\<close>, so before the first \<open>register\<close> or \<open>unregister\<close> reading them raises
  \<open>AttributeError\<close>; \<open>unregister\<close> sets them to \<open>None\<close>.
\<close>

datatype 'a ref = NoAttr | NoneRef | Ref 'a

definition getattr_ref :: "'a ref \<Rightarrow> py_error + 'a option" where
  "getattr_ref r =
     (case r of NoAttr \<Rightarrow> Inl AttributeError | NoneRef \<Rightarrow> Inr None | Ref c \<Rightarrow> Inr (Some c))"

record DynamicProperties = PropertyCollection +
  oid :: nat
  bpy_type :: string
  name :: string
  title :: string
  panel_parent_id :: string
  property_class :: "bpy_class ref"
  panel_class :: "bpy_class ref"

text \<open>
  What the methods read and write outside the registrar: the class attribute
  \<open>registered_properties\<close> (key to registrar, a registrar being referred to by its
  identity \<open>oid\<close>), the classes the host has registered, and the identity the next new
  class object gets.
\<close>

record bpy_env =
  registered_properties :: "(string \<times> nat) list"
  bpy_classes :: "bpy_class list"
  next_class_id :: nat

text \<open>
  Modelled from the spec: the host's type-registration primitives
  \<open>bpy.utils.register_class\<close> and \<open>bpy.utils.unregister_class\<close>, which are not in the
  repository. Registering adds the class to the host's registered classes and fails for a
  class that is registered already; unregistering removes it and fails for \<open>None\<close> and
  for a class that is not registered. The pointer attribute that the record type's own
  \<open>register\<close> and \<open>unregister\<close> callbacks set and delete on the target type comes and
  goes with the record type and is not tracked apart from it.
\<close>

definition register_class :: "bpy_class \<Rightarrow> bpy_class list \<Rightarrow> py_error + bpy_class list" where
  "register_class cls host = (if cls \<in> set host then Inl ValueError else Inr (host @ [cls]))"

definition unregister_class :: "bpy_class option \<Rightarrow> bpy_class list \<Rightarrow> py_error + bpy_class list" where
  "unregister_class arg host =
     (case arg of
        None \<Rightarrow> Inl TypeError
      | Some cls \<Rightarrow> if cls \<in> set host then Inr (removeAll cls host) else Inl RuntimeError)"

text \<open>\<open>del d[k]\<close> raises \<open>KeyError\<close> when the key is not there.\<close>

definition dict_del :: "'k \<Rightarrow> ('k \<times> 'v) list \<Rightarrow> py_error + ('k \<times> 'v) list" where
  "dict_del k d = (if dict_contains k d then Inr (AList.delete k d) else Inl KeyError)"

text \<open>\<open>try: ... except: pass\<close> around a step: on any error the state stays as it was.\<close>

definition try_pass :: "py_error + 'a \<Rightarrow> 'a \<Rightarrow> 'a" where
  "try_pass step unchanged = (case step of Inl e \<Rightarrow> unchanged | Inr v \<Rightarrow> v)"

text \<open>
  \<open>DynamicProperties.__init__\<close>: the collection is initialised by \<open>clear\<close>, then the four
  attributes are set. The two class attributes are left unset.
\<close>

definition DynamicProperties_init ::
  "nat \<Rightarrow> string \<Rightarrow> string \<Rightarrow> string \<Rightarrow> bool \<Rightarrow> string \<Rightarrow> DynamicProperties" where
  "DynamicProperties_init obj_id bpy_type_name nm ttl enabled parent_id =
     clear enabled
       \<lparr>props = [], meta = [], oid = obj_id, bpy_type = bpy_type_name, name = nm,
        title = ttl, panel_parent_id = parent_id,
        property_class = NoAttr, panel_class = NoAttr\<rparr>"

text \<open>
  The methods return the error raised, if any, with the registrar and the environment as
  the call leaves them.
\<close>

definition unregister ::
  "DynamicProperties \<Rightarrow> bpy_env \<Rightarrow> py_error option \<times> DynamicProperties \<times> bpy_env" where
  "unregister self env =
     (let env1 = try_pass
            (case getattr_ref (property_class self) of
               Inl e \<Rightarrow> Inl e
             | Inr arg \<Rightarrow>
                 (case unregister_class arg (bpy_classes env) of
                    Inl e \<Rightarrow> Inl e
                  | Inr host \<Rightarrow> Inr (env\<lparr>bpy_classes := host\<rparr>))) env;
          env2 = try_pass
            (case getattr_ref (panel_class self) of
               Inl e \<Rightarrow> Inl e
             | Inr arg \<Rightarrow>
                 (case unregister_class arg (bpy_classes env1) of
                    Inl e \<Rightarrow> Inl e
                  | Inr host \<Rightarrow> Inr (env1\<lparr>bpy_classes := host\<rparr>))) env1;
          env3 = try_pass
            (case dict_del (get_key (bpy_type self) (name self)) (registered_properties env2) of
               Inl e \<Rightarrow> Inl e
             | Inr tbl \<Rightarrow> Inr (env2\<lparr>registered_properties := tbl\<rparr>)) env2
      in (None, self\<lparr>property_class := NoneRef, panel_class := NoneRef\<rparr>, env3))"

text \<open>
  The \<open>if\<close>/\<open>elif\<close> chain of \<open>register\<close> over \<open>type_name\<close>: the pair
  (\<open>bl_context\<close>, \<open>context_attr\<close>) it sets on the panel class, or the \<open>TypeError\<close> of
  its \<open>else\<close> branch.
\<close>

definition panel_context :: "string \<Rightarrow> py_error + string \<times> string" where
  "panel_context type_name =
     (if type_name = ''Light'' then Inr (''data'', ''light'')
      else if type_name = ''Material'' then Inr (''material'', ''material'')
      else if type_name = ''Object'' then Inr (''object'', ''object'')
      else if type_name = ''RenderEngine'' then Inr (''render'', ''engine'')
      else Inl TypeError)"

definition new_property_class :: "DynamicProperties \<Rightarrow> nat \<Rightarrow> bpy_class" where
  "new_property_class self cid =
     PropertyGroupClass
       \<lparr>rc_class_id = cid,
        rc_class_name = get_key (bpy_type self) (name self) @ ''PropertyGroup'',
        rc_annotations = props self,
        rc_bpy_type = bpy_type self,
        rc_name = name self,
        rc_title = title self,
        rc_meta = meta self\<rparr>"

definition new_panel_class :: "DynamicProperties \<Rightarrow> nat \<Rightarrow> string \<times> string \<Rightarrow> bpy_class" where
  "new_panel_class self cid ctx =
     PanelClass
       \<lparr>pc_class_id = cid,
        pc_class_name = ''DYNAMIC_PT_'' @ get_key (bpy_type self) (name self),
        pc_bpy_type = bpy_type self,
        pc_name = name self,
        pc_title = title self,
        bl_label = title self,
        bl_parent_id = panel_parent_id self,
        bl_context = fst ctx,
        context_attr = snd ctx\<rparr>"

definition register ::
  "DynamicProperties \<Rightarrow> bpy_env \<Rightarrow> py_error option \<times> DynamicProperties \<times> bpy_env" where
  "register self env =
     (let key = get_key (bpy_type self) (name self);
          cid = next_class_id env;
          env0 = env\<lparr>next_class_id := cid + 2\<rparr>
      in case panel_context (bpy_type self) of
           Inl e \<Rightarrow> (Some e, self, env0)
         | Inr ctx \<Rightarrow>
            (let pclass = new_property_class self cid;
                 panel = new_panel_class self (cid + 1) ctx;
                 (u, self1, env1) = unregister self env0
             in case register_class pclass (bpy_classes env1) of
                  Inl e \<Rightarrow> (Some e, self1, env1)
                | Inr host1 \<Rightarrow>
                   (case register_class panel host1 of
                      Inl e \<Rightarrow> (Some e, self1, env1\<lparr>bpy_classes := host1\<rparr>)
                    | Inr host2 \<Rightarrow>
                       (None,
                        self1\<lparr>property_class := Ref pclass, panel_class := Ref panel\<rparr>,
                        env1\<lparr>bpy_classes := host2,
                             registered_properties :=
                               AList.update key (oid self) (registered_properties env1)\<rparr>))))"

definition find :: "string \<Rightarrow> string \<Rightarrow> bpy_env \<Rightarrow> nat option" where
  "find bpy_type_name nm env = map_of (registered_properties env) (get_key bpy_type_name nm)"

section \<open>Sequences of calls on several registrars\<close>








text \<open>The target type and group name a class was created for, and its sort.\<close>

fun class_target :: "bpy_class \<Rightarrow> string \<times> string" where
  "class_target (PropertyGroupClass r) = (rc_bpy_type r, rc_name r)"
| "class_target (PanelClass p) = (pc_bpy_type p, pc_name p)"

fun class_id :: "bpy_class \<Rightarrow> nat" where
  "class_id (PropertyGroupClass r) = rc_class_id r"
| "class_id (PanelClass p) = pc_class_id p"

fun is_record_class :: "bpy_class \<Rightarrow> bool" where
  "is_record_class (PropertyGroupClass r) = True"
| "is_record_class (PanelClass p) = False"




text \<open>
  Helpers to state what \<open>unregister\<close> does to the host: the class an attribute holds, as
  a set, and the registered classes without it.
\<close>

definition ref_set :: "'a ref \<Rightarrow> 'a set" where
  "ref_set r = (case r of NoAttr \<Rightarrow> {} | NoneRef \<Rightarrow> {} | Ref c \<Rightarrow> {c})"

definition drop_ref :: "bpy_class ref \<Rightarrow> bpy_class list \<Rightarrow> bpy_class list" where
  "drop_ref r host = (case r of NoAttr \<Rightarrow> host | NoneRef \<Rightarrow> host | Ref c \<Rightarrow> removeAll c host)"



section \<open>Properties of the collection\<close>

lemma dict_merge_Nil: "dict_merge kwargs [] = kwargs"
  by (simp add: dict_merge_def)

lemma dict_merge_Cons:
  "dict_merge kwargs ((k, v) # args) = dict_merge (AList.update k v kwargs) args"
  by (simp add: dict_merge_def)

text \<open>
  C6: \<open>clear(enabled)\<close> on any collection leaves exactly one constructor and one
  descriptor, both under the key \<open>enabled\<close>: the boolean constructor called with the given
  default, the \<open>HIDDEN\<close> option and the name, and the descriptor of kind \<open>bool\<close>. A newly
  constructed collection is in the same state.
\<close>

theorem clear_yields_enabled_only:
  "props (clear enabled self) =
     [(''enabled'', (BoolProperty,
         [(''default'', PBool enabled), (''options'', PSet [''HIDDEN'']),
          (''name'', PStr ''enabled'')]))]
   \<and> meta (clear enabled self) = [(''enabled'', (''bool'', ''enabled'', PStr ''''))]
   \<and> length (props (clear enabled self)) = 1
   \<and> length (meta (clear enabled self)) = 1
   \<and> PropertyCollection_init enabled =
       \<lparr>props = props (clear enabled self), meta = meta (clear enabled self)\<rparr>"
  by (simp add: clear_def PropertyCollection_init_def add_bool_def add_property_def
      dict_merge_Cons dict_merge_Nil dict_get_def)

lemmas add_kind_defs =
  add_float_def add_bool_def add_str_def add_vec2_def add_vec3_def
  add_rgb_def add_rgba_def add_enum_def add_file_def add_dir_def

lemma map_of_props_add_property:
  "map_of (props (add_property ctor kind args key nm kw self)) key =
     Some (ctor, dict_merge kw args)"
  by (simp add: add_property_def update_conv')

lemma passed_arg_add_property:
  "passed_arg (add_property ctor kind args key nm kw self) key k =
     map_of (dict_merge kw args) k"
  by (simp add: passed_arg_def map_of_props_add_property)

lemma delete_update_fresh:
  "k \<notin> fst ` set al \<Longrightarrow> AList.delete k (AList.update k v al) = al"
  by (simp add: delete_update_same)

lemma enabled_apply_op:
  "enabled_is_bool self \<Longrightarrow> op_key x \<noteq> Some ''enabled'' \<Longrightarrow>
   enabled_is_bool (apply_op x self)"
  by (cases x)
    (simp_all add: add_kind_defs add_property_def add_header_def add_image_def remove_def
      dict_contains_def enabled_is_bool_def update_conv' delete_conv' clear_def Let_def)

lemma enabled_clear: "enabled_is_bool (clear enabled self)"
  by (simp add: clear_def add_bool_def add_property_def enabled_is_bool_def)

lemma enabled_apply_ops:
  "enabled_is_bool self \<Longrightarrow> \<forall>x \<in> set xs. op_key x \<noteq> Some ''enabled'' \<Longrightarrow>
   enabled_is_bool (apply_ops xs self)"
  by (induction xs arbitrary: self) (simp_all add: enabled_apply_op)

subsection \<open>Option dictionaries\<close>

text \<open>
  C3, as the claim states it, fails: \<open>add_vec2('v', 'V', size=5)\<close> calls the constructor with
  \<open>size=2\<close>, so the caller's option does not take precedence over the default of a kind
  that is neither RGB nor RGBA.
\<close>

theorem add_vec2_caller_size_overridden:
  "passed_arg (add_vec2 ''v'' ''V'' [(''size'', PInt 5)] (PropertyCollection_init True))
     ''v'' ''size'' = Some (PInt 2)
   \<and> passed_arg (add_vec2 ''v'' ''V'' [(''size'', PInt 5)] (PropertyCollection_init True))
     ''v'' ''size'' \<noteq> map_of [(''size'', PInt 5)] ''size''"
  by (simp add: add_vec2_def passed_arg_add_property dict_merge_Cons dict_merge_Nil)

text \<open>
  C3, amended: for each keyword-taking \<open>add_<kind>\<close> the dictionary passed to the constructor
  is the merge of the caller's options with the literal dictionary of the kind, and the
  entries of the literal dictionary win for every kind: \<open>name\<close> always, \<open>size\<close> for the
  vectors and colours, \<open>subtype\<close> for file, directory and colours, \<open>min\<close> and \<open>max\<close>
  for the colours. Every other option is the caller's.
\<close>

theorem add_kind_defaults_take_precedence:
  "passed_arg (add_float key nm kw self) key k =
     (if k = ''name'' then Some (PStr nm) else map_of kw k)
   \<and> passed_arg (add_bool key nm kw self) key k =
     (if k = ''name'' then Some (PStr nm) else map_of kw k)
   \<and> passed_arg (add_str key nm kw self) key k =
     (if k = ''name'' then Some (PStr nm) else map_of kw k)
   \<and> passed_arg (add_enum key nm kw self) key k =
     (if k = ''name'' then Some (PStr nm) else map_of kw k)
   \<and> passed_arg (add_vec2 key nm kw self) key k =
     (if k = ''size'' then Some (PInt 2)
      else if k = ''name'' then Some (PStr nm) else map_of kw k)
   \<and> passed_arg (add_vec3 key nm kw self) key k =
     (if k = ''size'' then Some (PInt 3)
      else if k = ''name'' then Some (PStr nm) else map_of kw k)
   \<and> passed_arg (add_file key nm kw self) key k =
     (if k = ''name'' then Some (PStr nm)
      else if k = ''subtype'' then Some (PStr ''FILE_PATH'') else map_of kw k)
   \<and> passed_arg (add_dir key nm kw self) key k =
     (if k = ''name'' then Some (PStr nm)
      else if k = ''subtype'' then Some (PStr ''DIR_PATH'') else map_of kw k)
   \<and> passed_arg (add_rgb key nm kw self) key k =
     (if k = ''size'' then Some (PInt 3)
      else if k = ''name'' then Some (PStr nm)
      else if k = ''subtype'' then Some (PStr ''COLOR'')
      else if k = ''min'' then Some (PFloat 0)
      else if k = ''max'' then Some (PFloat 1) else map_of kw k)
   \<and> passed_arg (add_rgba key nm kw self) key k =
     (if k = ''size'' then Some (PInt 4)
      else if k = ''name'' then Some (PStr nm)
      else if k = ''subtype'' then Some (PStr ''COLOR'')
      else if k = ''min'' then Some (PFloat 0)
      else if k = ''max'' then Some (PFloat 1) else map_of kw k)"
  by (simp add: add_kind_defs passed_arg_add_property dict_merge_Cons dict_merge_Nil
      update_conv')

subsection \<open>The reserved field\<close>

text \<open>
  C4, as the claim states it, fails: \<open>remove('enabled')\<close> on a new collection deletes the
  reserved field, and \<open>add_float('enabled', ...)\<close> replaces it by a float field.
\<close>

theorem remove_enabled_deletes_reserved_field:
  "\<not> enabled_is_bool (remove ''enabled'' (PropertyCollection_init True))
   \<and> \<not> enabled_is_bool (add_float ''enabled'' ''E'' [] (PropertyCollection_init True))"
  by (simp add: add_kind_defs add_property_def remove_def dict_contains_def
      enabled_is_bool_def clear_def PropertyCollection_init_def Let_def)

text \<open>
  C4, amended: after construction or \<open>clear\<close>, every sequence of \<open>add_<kind>\<close>,
  \<open>add_header\<close>, \<open>remove\<close> and \<open>clear\<close> calls none of which is given the key
  \<open>enabled\<close> leaves the reserved field in the collection, of boolean kind.
\<close>

theorem enabled_kept_by_other_keys:
  assumes "\<forall>x \<in> set xs. op_key x \<noteq> Some ''enabled''"
  shows "enabled_is_bool (apply_ops xs (clear enabled self))"
  using enabled_apply_ops [OF enabled_clear assms] .

theorem enabled_kept_by_other_keys_witness:
  "list_all (\<lambda>x. op_key x \<noteq> Some ''enabled'')
     [AddFloat ''f'' ''F'' [], AddHeader ''h'' ''H'', Remove ''f'', Clear False,
      AddRgb ''c'' ''C'' [(''min'', PFloat 2)]]
   \<and> enabled_is_bool
       (apply_ops [AddFloat ''f'' ''F'' [], AddHeader ''h'' ''H'', Remove ''f'', Clear False,
          AddRgb ''c'' ''C'' [(''min'', PFloat 2)]]
        (clear True \<lparr>props = [], meta = []\<rparr>))"
  using enabled_kept_by_other_keys
    [of "[AddFloat ''f'' ''F'' [], AddHeader ''h'' ''H'', Remove ''f'', Clear False,
          AddRgb ''c'' ''C'' [(''min'', PFloat 2)]]" True "\<lparr>props = [], meta = []\<rparr>"]
  by simp

subsection \<open>Adding, then removing\<close>

text \<open>
  C5, as the claim states it, fails: when the key is already in the collection, the add
  overwrites its field and the remove deletes it, so the earlier field is gone. The key
  \<open>enabled\<close> is such a key: adding it and removing it leaves an empty collection.
\<close>

theorem add_remove_existing_key_loses_field:
  "remove ''f'' (add_float ''f'' ''G'' [] (add_float ''f'' ''F'' [] (PropertyCollection_init True)))
     \<noteq> add_float ''f'' ''F'' [] (PropertyCollection_init True)
   \<and> remove ''f'' (add_float ''f'' ''G'' [] (add_float ''f'' ''F'' [] (PropertyCollection_init True)))
     = PropertyCollection_init True
   \<and> remove ''enabled'' (add_bool ''enabled'' ''E'' [] (PropertyCollection_init True))
     = \<lparr>props = [], meta = []\<rparr>"
  by (simp add: add_kind_defs add_property_def remove_def dict_contains_def
      clear_def PropertyCollection_init_def Let_def dict_merge_Cons dict_merge_Nil dict_get_def)

text \<open>
  C5, amended: for a key that is in neither dictionary of the collection, any
  \<open>add_<kind>(key, ...)\<close> or \<open>add_header(key, ...)\<close> followed by \<open>remove(key)\<close> gives back
  the collection as it was, constructors and descriptors alike.
\<close>

theorem add_remove_fresh_key_roundtrip:
  assumes "is_add x" and "op_key x = Some key"
    and "\<not> dict_contains key (props self)" and "\<not> dict_contains key (meta self)"
  shows "remove key (apply_op x self) = self"
  using assms
  by (cases x)
    (simp_all add: add_kind_defs add_property_def add_header_def add_image_def remove_def
      dict_contains_def delete_update_fresh dom_update Let_def)

theorem add_remove_fresh_key_roundtrip_witness:
  "is_add (AddRgb ''c'' ''C'' [(''min'', PFloat 2)])
   \<and> op_key (AddRgb ''c'' ''C'' [(''min'', PFloat 2)]) = Some ''c''
   \<and> \<not> dict_contains ''c'' (props (PropertyCollection_init True))
   \<and> \<not> dict_contains ''c'' (meta (PropertyCollection_init True))
   \<and> remove ''c'' (apply_op (AddRgb ''c'' ''C'' [(''min'', PFloat 2)])
        (PropertyCollection_init True)) = PropertyCollection_init True"
  using add_remove_fresh_key_roundtrip
    [of "AddRgb ''c'' ''C'' [(''min'', PFloat 2)]" "''c''" "PropertyCollection_init True"]
  by (simp add: dict_contains_def PropertyCollection_init_def clear_def add_bool_def
      add_property_def)

section \<open>Properties of items\<close>

lemma items_loop_closed:
  assumes "distinct (map fst m)"
    and "\<forall>entry \<in> set m. reported entry \<longrightarrow> map_of attrs (fst entry) \<noteq> None"
    and "fst ` set acc \<inter> fst ` set m = {}"
  shows "items_loop m attrs acc =
     Inr (acc @ map (\<lambda>entry. (fst entry, fst (snd entry), the (map_of attrs (fst entry))))
                 (filter reported m))"
  using assms
proof (induction m arbitrary: acc)
  case Nil
  then show ?case by simp
next
  case (Cons x m)
  obtain key e where x: "x = (key, e)" by (cases x)
  show ?case
  proof (cases "reported x")
    case True
    then obtain v where v: "map_of attrs key = Some v" using Cons.prems(2) x by auto
    have fresh: "key \<notin> fst ` set acc" using Cons.prems(3) x by auto
    have upd: "AList.update key (fst e, v) acc = acc @ [(key, fst e, v)]"
      using fresh by (induction acc) auto
    have "items_loop m attrs (acc @ [(key, fst e, v)]) =
       Inr ((acc @ [(key, fst e, v)]) @
            map (\<lambda>entry. (fst entry, fst (snd entry), the (map_of attrs (fst entry))))
              (filter reported m))"
      using Cons.prems x by (intro Cons.IH) auto
    moreover have "key \<noteq> ''enabled'' \<and> fst e \<noteq> ''header''"
      using True x by (simp add: reported_def)
    moreover have "reported (key, e)" using True x by simp
    ultimately show ?thesis using x v upd
      by (simp add: getattr_value_def)
  next
    case False
    have "items_loop m attrs acc =
       Inr (acc @ map (\<lambda>entry. (fst entry, fst (snd entry), the (map_of attrs (fst entry))))
                 (filter reported m))"
      using Cons.prems x by (intro Cons.IH) auto
    moreover have "\<not> (key \<noteq> ''enabled'' \<and> fst e \<noteq> ''header'')"
      using False x by (simp add: reported_def)
    moreover have "\<not> reported (key, e)" using False x by simp
    ultimately show ?thesis using x by auto
  qed
qed

text \<open>
  The descriptor dictionary of a collection never holds a key twice, whatever calls were
  made on the collection.
\<close>

lemma distinct_meta_apply_op:
  "distinct (map fst (meta self)) \<Longrightarrow> distinct (map fst (meta (apply_op x self)))"
  by (cases x)
    (simp_all add: add_kind_defs add_property_def add_header_def add_image_def remove_def
      clear_def distinct_update distinct_delete Let_def)

lemma distinct_meta_apply_ops:
  "distinct (map fst (meta self)) \<Longrightarrow> distinct (map fst (meta (apply_ops xs self)))"
  by (induction xs arbitrary: self) (simp_all add: distinct_meta_apply_op)

lemma distinct_meta_collection:
  "distinct (map fst (meta (apply_ops xs (clear enabled self))))"
  by (rule distinct_meta_apply_ops) (simp add: clear_def add_bool_def add_property_def)

text \<open>
  C7: on a descriptor dictionary and an instance that holds a value for every reported
  key, \<open>items\<close> returns, in the order of the dictionary, one entry for each field whose
  key is not \<open>enabled\<close> and whose kind is not \<open>header\<close>: the key with the kind tag and
  the value the instance holds. No other entry is returned.
\<close>

theorem items_reports_fields:
  assumes "distinct (map fst m)"
    and "\<forall>entry \<in> set m. reported entry \<longrightarrow> map_of attrs (fst entry) \<noteq> None"
  shows "items m attrs =
     Inr (map (\<lambda>entry. (fst entry, fst (snd entry), the (map_of attrs (fst entry))))
            (filter reported m))"
  using items_loop_closed [OF assms, of "[]"] by (simp add: items_def)

lemma scenario_meta:
  "meta (add_header ''h'' ''H''
       (add_float ''f'' ''F'' [(''default'', PFloat 1)] (PropertyCollection_init True)))
   = [(''enabled'', (''bool'', ''enabled'', PStr '''')),
      (''f'', (''float'', ''F'', PStr '''')),
      (''h'', (''header'', ''H'', PStr ''''))]"
  by (simp add: add_header_def add_float_def add_bool_def add_property_def
      PropertyCollection_init_def clear_def dict_get_def)

theorem items_reports_fields_witness:
  "distinct (map fst (meta (add_header ''h'' ''H''
       (add_float ''f'' ''F'' [(''default'', PFloat 1)] (PropertyCollection_init True)))))
   \<and> list_all
        (\<lambda>entry. reported entry \<longrightarrow>
           map_of [(''enabled'', PBool True), (''f'', PFloat 1)] (fst entry) \<noteq> None)
        (meta (add_header ''h'' ''H''
           (add_float ''f'' ''F'' [(''default'', PFloat 1)] (PropertyCollection_init True))))
   \<and> items (meta (add_header ''h'' ''H''
       (add_float ''f'' ''F'' [(''default'', PFloat 1)] (PropertyCollection_init True))))
       [(''enabled'', PBool True), (''f'', PFloat 1)]
     = Inr [(''f'', ''float'', PFloat 1)]"
  using items_reports_fields
    [of "meta (add_header ''h'' ''H''
       (add_float ''f'' ''F'' [(''default'', PFloat 1)] (PropertyCollection_init True)))"
     "[(''enabled'', PBool True), (''f'', PFloat 1)]"]
  by (simp add: scenario_meta reported_def)

section \<open>Properties of the registrar\<close>

lemma drop_ref_simps [simp]:
  "drop_ref NoAttr host = host" "drop_ref NoneRef host = host"
  "drop_ref (Ref c) host = removeAll c host"
  by (simp_all add: drop_ref_def)

lemma set_drop_ref: "set (drop_ref r host) = set host - ref_set r"
  by (cases r) (auto simp: ref_set_def)

lemma try_unregister_class:
  "try_pass (case getattr_ref r of Inl e \<Rightarrow> Inl e
     | Inr arg \<Rightarrow> (case unregister_class arg (bpy_classes env) of Inl e \<Rightarrow> Inl e
        | Inr host \<Rightarrow> Inr (env\<lparr>bpy_classes := host\<rparr>))) env
   = env\<lparr>bpy_classes := drop_ref r (bpy_classes env)\<rparr>"
  by (cases r) (auto simp: try_pass_def getattr_ref_def unregister_class_def)

lemma unregister_eq:
  "unregister self env =
    (None, self\<lparr>property_class := NoneRef, panel_class := NoneRef\<rparr>,
     env\<lparr>bpy_classes :=
           drop_ref (panel_class self) (drop_ref (property_class self) (bpy_classes env)),
         registered_properties :=
           AList.delete (get_key (bpy_type self) (name self)) (registered_properties env)\<rparr>)"
  unfolding unregister_def Let_def try_unregister_class
  by (auto simp: try_pass_def dict_del_def dict_contains_def)

lemma register_unrecognized:
  assumes "bpy_type self \<notin> {''Light'', ''Material'', ''Object'', ''RenderEngine''}"
  shows "register self env =
    (Some TypeError, self, env\<lparr>next_class_id := next_class_id env + 2\<rparr>)"
  using assms by (simp add: register_def panel_context_def Let_def)

lemma register_recognized:
  assumes ctx: "panel_context (bpy_type self) = Inr ctx"
    and fresh: "\<forall>c \<in> set (bpy_classes env). class_id c < next_class_id env"
  shows "register self env =
    (None,
     self\<lparr>property_class := Ref (new_property_class self (next_class_id env)),
          panel_class := Ref (new_panel_class self (next_class_id env + 1) ctx)\<rparr>,
     env\<lparr>next_class_id := next_class_id env + 2,
         bpy_classes :=
           drop_ref (panel_class self) (drop_ref (property_class self) (bpy_classes env))
            @ [new_property_class self (next_class_id env),
               new_panel_class self (next_class_id env + 1) ctx],
         registered_properties :=
           AList.update (get_key (bpy_type self) (name self)) (oid self)
             (AList.delete (get_key (bpy_type self) (name self))
                (registered_properties env))\<rparr>)"
proof -
  let ?host = "drop_ref (panel_class self) (drop_ref (property_class self) (bpy_classes env))"
  let ?pc = "new_property_class self (next_class_id env)"
  let ?pn = "new_panel_class self (next_class_id env + 1) ctx"
  have sub: "set ?host \<subseteq> set (bpy_classes env)" by (auto simp: set_drop_ref)
  have "class_id ?pc = next_class_id env" by (simp add: new_property_class_def)
  then have 1: "?pc \<notin> set ?host" using fresh sub by fastforce
  have "class_id ?pn = next_class_id env + 1" by (simp add: new_panel_class_def)
  then have "?pn \<notin> set ?host" using fresh sub by fastforce
  moreover have "?pn \<noteq> ?pc" by (simp add: new_property_class_def new_panel_class_def)
  ultimately have 2: "?pn \<notin> set (?host @ [?pc])" by simp
  show ?thesis
    using ctx 1 2 by (simp add: register_def Let_def unregister_eq register_class_def)
qed

lemma init_fields:
  "bpy_type (DynamicProperties_init i t n ttl en parent) = t"
  "name (DynamicProperties_init i t n ttl en parent) = n"
  "oid (DynamicProperties_init i t n ttl en parent) = i"
  "property_class (DynamicProperties_init i t n ttl en parent) = NoAttr"
  "panel_class (DynamicProperties_init i t n ttl en parent) = NoAttr"
  by (simp_all add: DynamicProperties_init_def clear_def add_bool_def add_property_def)

text \<open>
  C2: when the target type of the registrar is none of \<open>Light\<close>, \<open>Material\<close>,
  \<open>Object\<close> and \<open>RenderEngine\<close>, \<open>register\<close> raises \<open>TypeError\<close>; the registrar
  (with the classes it holds), the registration table and the classes registered with the
  host are as they were before the call.
\<close>

theorem register_unrecognized_type_raises:
  assumes "bpy_type self \<notin> {''Light'', ''Material'', ''Object'', ''RenderEngine''}"
  shows "fst (register self env) = Some TypeError
    \<and> fst (snd (register self env)) = self
    \<and> registered_properties (snd (snd (register self env))) = registered_properties env
    \<and> bpy_classes (snd (snd (register self env))) = bpy_classes env"
  by (simp add: register_unrecognized [OF assms])

theorem register_unrecognized_type_raises_witness:
  "bpy_type (DynamicProperties_init 0 ''Camera'' ''g'' ''G'' True '''')
     \<notin> {''Light'', ''Material'', ''Object'', ''RenderEngine''}
   \<and> fst (register (DynamicProperties_init 0 ''Camera'' ''g'' ''G'' True '''')
        \<lparr>registered_properties = [(''Lightfizz'', 1)], bpy_classes = [], next_class_id = 4\<rparr>)
      = Some TypeError
   \<and> registered_properties (snd (snd (register (DynamicProperties_init 0 ''Camera'' ''g'' ''G'' True '''')
        \<lparr>registered_properties = [(''Lightfizz'', 1)], bpy_classes = [], next_class_id = 4\<rparr>)))
      = [(''Lightfizz'', 1)]"
  using register_unrecognized_type_raises
    [of "DynamicProperties_init 0 ''Camera'' ''g'' ''G'' True ''''"
        "\<lparr>registered_properties = [(''Lightfizz'', 1)], bpy_classes = [], next_class_id = 4\<rparr>"]
  by (simp add: init_fields)


text \<open>
  C8: after a \<open>register\<close> call that returns, \<open>find\<close> on the registrar's target type
  and group name gives the identity of that registrar; after its \<open>unregister\<close> call,
  \<open>find\<close> gives \<open>None\<close>.
\<close>

theorem find_after_register_and_unregister:
  "(fst (register self env) = None \<longrightarrow>
      find (bpy_type self) (name self) (snd (snd (register self env))) = Some (oid self))
   \<and> find (bpy_type self) (name self) (snd (snd (unregister self env))) = None"
  by (auto simp add: register_def Let_def unregister_eq find_def update_conv' delete_conv'
      split: sum.splits prod.splits)

lemma register_light_fizz:
  "fst (register (DynamicProperties_init 0 ''Light'' ''fizz'' ''Fizz Settings'' True ''P'')
        \<lparr>registered_properties = [], bpy_classes = [], next_class_id = 0\<rparr>) = None"
  by (simp add: register_recognized [where ctx = "(''data'', ''light'')"] panel_context_def init_fields)

theorem find_after_register_and_unregister_witness:
  "fst (register (DynamicProperties_init 0 ''Light'' ''fizz'' ''Fizz Settings'' True ''P'')
        \<lparr>registered_properties = [], bpy_classes = [], next_class_id = 0\<rparr>) = None
   \<and> find ''Light'' ''fizz''
       (snd (snd (register (DynamicProperties_init 0 ''Light'' ''fizz'' ''Fizz Settings'' True ''P'')
        \<lparr>registered_properties = [], bpy_classes = [], next_class_id = 0\<rparr>))) = Some 0"
  using find_after_register_and_unregister
    [of "DynamicProperties_init 0 ''Light'' ''fizz'' ''Fizz Settings'' True ''P''"
        "\<lparr>registered_properties = [], bpy_classes = [], next_class_id = 0\<rparr>"]
    register_light_fizz
  by (simp add: init_fields)

text \<open>
  C10: \<open>unregister\<close> on a registrar as \<open>__init__\<close> leaves it raises nothing; afterwards
  both class attributes are \<open>None\<close>, the host's registered classes are unchanged, and
  when the table has no entry under the registrar's key the table is unchanged.
\<close>

theorem unregister_fresh_registrar:
  "fst (unregister (DynamicProperties_init i t n ttl en parent) env) = None
   \<and> property_class (fst (snd (unregister (DynamicProperties_init i t n ttl en parent) env)))
       = NoneRef
   \<and> panel_class (fst (snd (unregister (DynamicProperties_init i t n ttl en parent) env)))
       = NoneRef
   \<and> bpy_classes (snd (snd (unregister (DynamicProperties_init i t n ttl en parent) env)))
       = bpy_classes env
   \<and> (\<not> dict_contains (get_key t n) (registered_properties env) \<longrightarrow>
       registered_properties
         (snd (snd (unregister (DynamicProperties_init i t n ttl en parent) env)))
       = registered_properties env)"
  by (simp add: unregister_eq init_fields dict_contains_def)

theorem unregister_fresh_registrar_witness:
  "\<not> dict_contains (get_key ''Light'' ''fizz'') [(''Lightbuzz'', Suc 0)]
   \<and> registered_properties
         (snd (snd (unregister (DynamicProperties_init 0 ''Light'' ''fizz'' ''F'' True '''')
            \<lparr>registered_properties = [(''Lightbuzz'', Suc 0)], bpy_classes = [], next_class_id = 2\<rparr>)))
       = [(''Lightbuzz'', Suc 0)]"
  using unregister_fresh_registrar
    [of 0 "''Light''" "''fizz''" "''F''" True "''''"
        "\<lparr>registered_properties = [(''Lightbuzz'', Suc 0)], bpy_classes = [], next_class_id = 2\<rparr>"]
  by (simp add: dict_contains_def get_key_def)

section \<open>Sequences of calls\<close>






lemma new_class_simps [simp]:
  "class_id (new_property_class self cid) = cid"
  "class_id (new_panel_class self cid ctx) = cid"
  "class_target (new_property_class self cid) = (bpy_type self, name self)"
  "class_target (new_panel_class self cid ctx) = (bpy_type self, name self)"
  "is_record_class (new_property_class self cid)"
  "\<not> is_record_class (new_panel_class self cid ctx)"
  by (simp_all add: new_property_class_def new_panel_class_def)















end
